theory Spec2Isabelle
  imports Main
begin

section \<open>JavaScript values and promises\<close>

text \<open>
  The module is JavaScript: the four parameters of \<open>mail\<close> are documented as strings but
  nothing in the language restricts them, an absent argument is \<open>undefined\<close>, and any value
  can be thrown. Values are therefore modelled by one type.
\<close>

datatype jsval =
    JUndefined
  | JNull
  | JBool bool
  | JNum int
  | JStr string
  | JObj "(string \<times> jsval) list"

text \<open>
  The state of a promise as seen by the code that awaits it: fulfilled with a value,
  rejected with a thrown value, or never settled.
\<close>

datatype promise = Fulfilled jsval | Rejected jsval | Pending

text \<open>A call with fewer arguments than parameters binds the missing ones to \<open>undefined\<close>.\<close>

definition arg :: "jsval list \<Rightarrow> nat \<Rightarrow> jsval" where
  "arg args i = (if i < length args then args ! i else JUndefined)"

text \<open>
  The value thrown by the engine when a property is read from \<open>undefined\<close> or \<open>null\<close>.
\<close>

definition type_error :: "string \<Rightarrow> jsval" where
  "type_error k =
     JObj [(''name'', JStr ''TypeError''),
           (''message'', JStr (''Cannot read properties of nullish value, reading '' @ k))]"

text \<open>
  Reading the property \<open>k\<close> of a value (\<open>v.k\<close>): a thrown TypeError (\<open>Inl\<close>) on
  \<open>undefined\<close> and \<open>null\<close>, the field of an object when it has one, \<open>undefined\<close>
  otherwise (own data properties only; the primitives have no property \<open>messageId\<close>,
  the only one read by this program).
\<close>

fun get_prop :: "jsval \<Rightarrow> string \<Rightarrow> jsval + jsval" where
  "get_prop JUndefined k = Inl (type_error k)"
| "get_prop JNull k = Inl (type_error k)"
| "get_prop (JObj fs) k = Inr (case map_of fs k of Some v \<Rightarrow> v | None \<Rightarrow> JUndefined)"
| "get_prop (JBool b) k = Inr JUndefined"
| "get_prop (JNum n) k = Inr JUndefined"
| "get_prop (JStr s) k = Inr JUndefined"

section \<open>The transport and the observable effects\<close>

text \<open>The \<open>tls\<close> sub-object of the options given to \<open>nodemailer.createTransport\<close>.\<close>

record tls_options =
  rejectUnauthorized :: bool

text \<open>The options object given to \<open>nodemailer.createTransport\<close>; \<open>tls\<close> may be absent.\<close>

record transport_options =
  host :: string
  port :: nat
  secure :: bool
  tls :: "tls_options option"

text \<open>The object literal \<open>{ from, to, subject, html }\<close> given to \<open>sendMail\<close>.\<close>

record message =
  m_from :: jsval
  m_to :: jsval
  m_subject :: jsval
  m_html :: jsval

text \<open>
  What the program does to the outside, in order: constructing a transporter, submitting a
  message to a transporter, and the two console calls with their argument lists.
\<close>

datatype event =
    CreateTransport transport_options
  | SendMail transport_options message
  | ConsoleLog "jsval list"
  | ConsoleError "jsval list"

text \<open>
  The world: the state of everything behind the transport (mail server, network), of a type
  the program knows nothing about, and the trace of effects so far.
\<close>

record 'n world =
  net :: 'n
  trace :: "event list"

text \<open>
  The library \<open>nodemailer\<close> is not part of the repository. Its behaviour is a parameter:
  given the transporter's options, the message and the state behind the transport, how the
  promise of \<open>sendMail\<close> settles and the state afterwards.
\<close>

type_synonym 'n transport = "transport_options \<Rightarrow> message \<Rightarrow> 'n \<Rightarrow> promise \<times> 'n"

definition createTransport :: "transport_options \<Rightarrow> 'n world \<Rightarrow> transport_options \<times> 'n world" where
  "createTransport opts w = (opts, w\<lparr>trace := trace w @ [CreateTransport opts]\<rparr>)"

definition sendMail ::
  "'n transport \<Rightarrow> transport_options \<Rightarrow> message \<Rightarrow> 'n world \<Rightarrow> promise \<times> 'n world" where
  "sendMail tr opts m w =
     (case tr opts m (net w) of
        (r, n') \<Rightarrow> (r, w\<lparr>net := n', trace := trace w @ [SendMail opts m]\<rparr>))"

definition console_log :: "jsval list \<Rightarrow> 'n world \<Rightarrow> 'n world" where
  "console_log args w = w\<lparr>trace := trace w @ [ConsoleLog args]\<rparr>"

definition console_error :: "jsval list \<Rightarrow> 'n world \<Rightarrow> 'n world" where
  "console_error args w = w\<lparr>trace := trace w @ [ConsoleError args]\<rparr>"

section \<open>The module \<open>src/index.js\<close>\<close>

text \<open>The options literal of \<open>src/index.js\<close>, lines 4 to 8: no \<open>tls\<close> key.\<close>

definition index_transporter :: transport_options where
  "index_transporter = \<lparr>host = ''localhost'', port = 25, secure = False, tls = None\<rparr>"

text \<open>Loading the module runs its only top-level statement with an effect.\<close>

definition index_load :: "'n world \<Rightarrow> 'n world" where
  "index_load w = snd (createTransport index_transporter w)"

text \<open>
  \<open>mail\<close> of \<open>src/index.js\<close>, lines 17 to 31. The body of \<open>try\<close> awaits \<open>sendMail\<close>, reads
  \<open>info.messageId\<close>, logs and returns \<open>info\<close>; whatever is thrown there (a rejection of the
  awaited promise, or the TypeError of the property read) is logged with \<open>console.error\<close>
  and thrown again. A promise that never settles leaves the call suspended at \<open>await\<close>.
\<close>

definition index_mail ::
  "'n transport \<Rightarrow> jsval \<Rightarrow> jsval \<Rightarrow> jsval \<Rightarrow> jsval \<Rightarrow> 'n world \<Rightarrow> promise \<times> 'n world" where
  "index_mail tr to from subject html w =
     (case sendMail tr index_transporter
             \<lparr>m_from = from, m_to = to, m_subject = subject, m_html = html\<rparr> w of
        (Fulfilled info, w1) \<Rightarrow>
          (case get_prop info ''messageId'' of
             Inr mid \<Rightarrow> (Fulfilled info, console_log [JStr ''Message sent: %s'', mid] w1)
           | Inl error \<Rightarrow> (Rejected error, console_error [JStr ''Error sending email:'', error] w1))
      | (Rejected error, w1) \<Rightarrow>
          (Rejected error, console_error [JStr ''Error sending email:'', error] w1)
      | (Pending, w1) \<Rightarrow> (Pending, w1))"

text \<open>
  The same function cut at its \<open>await\<close>, as the engine runs it. The call itself runs up to
  the \<open>await\<close>: it builds the message, hands it to \<open>sendMail\<close> and is suspended on the promise
  it got back. The rest runs when that promise settles; in between, other calls may start
  and other suspended calls may resume. A promise that never settles never resumes its call.
\<close>

definition index_mail_start ::
  "'n transport \<Rightarrow> jsval \<Rightarrow> jsval \<Rightarrow> jsval \<Rightarrow> jsval \<Rightarrow> 'n world \<Rightarrow> promise \<times> 'n world" where
  "index_mail_start tr to from subject html w =
     sendMail tr index_transporter
       \<lparr>m_from = from, m_to = to, m_subject = subject, m_html = html\<rparr> w"

definition index_mail_resume :: "promise \<Rightarrow> 'n world \<Rightarrow> promise \<times> 'n world" where
  "index_mail_resume p w1 =
     (case p of
        Fulfilled info \<Rightarrow>
          (case get_prop info ''messageId'' of
             Inr mid \<Rightarrow> (Fulfilled info, console_log [JStr ''Message sent: %s'', mid] w1)
           | Inl error \<Rightarrow> (Rejected error, console_error [JStr ''Error sending email:'', error] w1))
      | Rejected error \<Rightarrow>
          (Rejected error, console_error [JStr ''Error sending email:'', error] w1)
      | Pending \<Rightarrow> (Pending, w1))"

text \<open>A call \<open>mail(...args)\<close> with any number of arguments.\<close>

definition index_mail_call :: "'n transport \<Rightarrow> jsval list \<Rightarrow> 'n world \<Rightarrow> promise \<times> 'n world" where
  "index_mail_call tr args w = index_mail tr (arg args 0) (arg args 1) (arg args 2) (arg args 3) w"

text \<open>The life of a process that imports the module: the load, then calls one after another.\<close>

fun index_calls :: "'n transport \<Rightarrow> jsval list list \<Rightarrow> 'n world \<Rightarrow> 'n world" where
  "index_calls tr [] w = w"
| "index_calls tr (args # cs) w = index_calls tr cs (snd (index_mail_call tr args w))"

definition index_run :: "'n transport \<Rightarrow> jsval list list \<Rightarrow> 'n world \<Rightarrow> 'n world" where
  "index_run tr cs w = index_calls tr cs (index_load w)"

section \<open>The module \<open>src/unnamed/part_001\<close>\<close>

text \<open>The options literal of \<open>part_001\<close>, lines 4 to 12: \<open>tls: { rejectUnauthorized: false }\<close>.\<close>

definition part_001_transporter :: transport_options where
  "part_001_transporter =
     \<lparr>host = ''localhost'', port = 25, secure = False,
      tls = Some \<lparr>rejectUnauthorized = False\<rparr>\<rparr>"

definition part_001_load :: "'n world \<Rightarrow> 'n world" where
  "part_001_load w = snd (createTransport part_001_transporter w)"

text \<open>\<open>mail\<close> of \<open>part_001\<close>, lines 21 to 35.\<close>

definition part_001_mail ::
  "'n transport \<Rightarrow> jsval \<Rightarrow> jsval \<Rightarrow> jsval \<Rightarrow> jsval \<Rightarrow> 'n world \<Rightarrow> promise \<times> 'n world" where
  "part_001_mail tr to from subject html w =
     (case sendMail tr part_001_transporter
             \<lparr>m_from = from, m_to = to, m_subject = subject, m_html = html\<rparr> w of
        (Fulfilled info, w1) \<Rightarrow>
          (case get_prop info ''messageId'' of
             Inr mid \<Rightarrow> (Fulfilled info, console_log [JStr ''Message sent: %s'', mid] w1)
           | Inl error \<Rightarrow> (Rejected error, console_error [JStr ''Error sending email:'', error] w1))
      | (Rejected error, w1) \<Rightarrow>
          (Rejected error, console_error [JStr ''Error sending email:'', error] w1)
      | (Pending, w1) \<Rightarrow> (Pending, w1))"

definition part_001_mail_call :: "'n transport \<Rightarrow> jsval list \<Rightarrow> 'n world \<Rightarrow> promise \<times> 'n world" where
  "part_001_mail_call tr args w =
     part_001_mail tr (arg args 0) (arg args 1) (arg args 2) (arg args 3) w"

fun part_001_calls :: "'n transport \<Rightarrow> jsval list list \<Rightarrow> 'n world \<Rightarrow> 'n world" where
  "part_001_calls tr [] w = w"
| "part_001_calls tr (args # cs) w = part_001_calls tr cs (snd (part_001_mail_call tr args w))"

definition part_001_run :: "'n transport \<Rightarrow> jsval list list \<Rightarrow> 'n world \<Rightarrow> 'n world" where
  "part_001_run tr cs w = part_001_calls tr cs (part_001_load w)"

section \<open>Reading the trace\<close>

text \<open>The effects added between an earlier world and a later one.\<close>

definition new_events :: "'n world \<Rightarrow> 'n world \<Rightarrow> event list" where
  "new_events w w' = drop (length (trace w)) (trace w')"

fun creations :: "event list \<Rightarrow> transport_options list" where
  "creations [] = []"
| "creations (CreateTransport opts # es) = opts # creations es"
| "creations (e # es) = creations es"

fun submissions :: "event list \<Rightarrow> (transport_options \<times> message) list" where
  "submissions [] = []"
| "submissions (SendMail opts m # es) = (opts, m) # submissions es"
| "submissions (e # es) = submissions es"

fun console_calls :: "event list \<Rightarrow> event list" where
  "console_calls [] = []"
| "console_calls (ConsoleLog args # es) = ConsoleLog args # console_calls es"
| "console_calls (ConsoleError args # es) = ConsoleError args # console_calls es"
| "console_calls (e # es) = console_calls es"

text \<open>
  The delivery identifier carried by the outcome of a call: the \<open>messageId\<close> of the value
  the promise is fulfilled with, when that is a string.
\<close>

definition delivery_id :: "promise \<Rightarrow> string option" where
  "delivery_id p =
     (case p of
        Fulfilled info \<Rightarrow>
          (case get_prop info ''messageId'' of Inr (JStr s) \<Rightarrow> Some s | _ \<Rightarrow> None)
      | _ \<Rightarrow> None)"

text \<open>
  \<open>rejectUnauthorized\<close> defaults to \<open>true\<close> in the TLS layer: the certificate of the endpoint
  is accepted without validation only when the options say \<open>tls.rejectUnauthorized = false\<close>.
\<close>

definition cert_validation_relaxed :: "transport_options \<Rightarrow> bool" where
  "cert_validation_relaxed opts =
     (case tls opts of None \<Rightarrow> False | Some t \<Rightarrow> \<not> rejectUnauthorized t)"

section \<open>Concrete transports\<close>

text \<open>
  Four behaviours of the outside, used to run the model on concrete inputs. The state behind
  the transport is the number of messages accepted so far.
\<close>

definition accepting_mta :: "nat transport" where
  "accepting_mta opts m n =
     (Fulfilled (JObj [(''messageId'', JStr (''<'' @ replicate (Suc n) (CHR ''i'') @ ''@localhost>'')),
                       (''response'', JStr ''250 2.0.0 Ok: queued'')]),
      Suc n)"

definition refusing_mta :: "nat transport" where
  "refusing_mta opts m n = (Rejected (JObj [(''code'', JStr ''ECONNREFUSED'')]), n)"

definition silent_mta :: "nat transport" where
  "silent_mta opts m n = (Pending, n)"

text \<open>
  An endpoint that offers STARTTLS with a self-signed certificate: the negotiation fails
  unless the client was told not to validate.
\<close>

definition self_signed_mta :: "nat transport" where
  "self_signed_mta opts m n =
     (if cert_validation_relaxed opts then accepting_mta opts m n
      else (Rejected (JObj [(''code'', JStr ''ESOCKET''),
                            (''message'', JStr ''self-signed certificate'')]), n))"

text \<open>An endpoint that refuses a message whose recipient is not a non-empty string.\<close>

definition recipient_checking_mta :: "nat transport" where
  "recipient_checking_mta opts m n =
     (case m_to m of
        JStr (c # cs) \<Rightarrow> accepting_mta opts m n
      | _ \<Rightarrow> (Rejected (JObj [(''code'', JStr ''EENVELOPE'')]), n))"

definition w0 :: "nat world" where
  "w0 = \<lparr>net = 0, trace = []\<rparr>"

section \<open>Lemmas about the trace and the four ways a call ends\<close>

lemma creations_append: "creations (xs @ ys) = creations xs @ creations ys"
  by (induction xs rule: creations.induct) simp_all

lemma submissions_append: "submissions (xs @ ys) = submissions xs @ submissions ys"
  by (induction xs rule: submissions.induct) simp_all

lemma console_calls_append: "console_calls (xs @ ys) = console_calls xs @ console_calls ys"
  by (induction xs rule: console_calls.induct) simp_all

lemma new_events_append: "trace w' = trace w @ es \<Longrightarrow> new_events w w' = es"
  by (simp add: new_events_def)

lemma get_prop_throws:
  "get_prop v k = Inl e \<Longrightarrow> v = JUndefined \<or> v = JNull"
  by (cases v) simp_all

lemma delivery_id_messageId:
  "delivery_id (Fulfilled info) = Some mid \<Longrightarrow> get_prop info ''messageId'' = Inr (JStr mid)"
  by (simp add: delivery_id_def split: sum.splits jsval.splits)

lemma index_mail_fulfilled:
  assumes "tr index_transporter \<lparr>m_from = from, m_to = to, m_subject = subject, m_html = html\<rparr> (net w)
             = (Fulfilled info, n')"
    and "get_prop info ''messageId'' = Inr mid"
  shows "index_mail tr to from subject html w =
           (Fulfilled info,
            \<lparr>net = n',
             trace = trace w @
               [SendMail index_transporter
                  \<lparr>m_from = from, m_to = to, m_subject = subject, m_html = html\<rparr>,
                ConsoleLog [JStr ''Message sent: %s'', mid]]\<rparr>)"
  using assms by (simp add: index_mail_def sendMail_def console_log_def)

lemma index_mail_type_error:
  assumes "tr index_transporter \<lparr>m_from = from, m_to = to, m_subject = subject, m_html = html\<rparr> (net w)
             = (Fulfilled info, n')"
    and "get_prop info ''messageId'' = Inl error"
  shows "index_mail tr to from subject html w =
           (Rejected error,
            \<lparr>net = n',
             trace = trace w @
               [SendMail index_transporter
                  \<lparr>m_from = from, m_to = to, m_subject = subject, m_html = html\<rparr>,
                ConsoleError [JStr ''Error sending email:'', error]]\<rparr>)"
  using assms by (simp add: index_mail_def sendMail_def console_error_def)

lemma index_mail_rejected:
  assumes "tr index_transporter \<lparr>m_from = from, m_to = to, m_subject = subject, m_html = html\<rparr> (net w)
             = (Rejected error, n')"
  shows "index_mail tr to from subject html w =
           (Rejected error,
            \<lparr>net = n',
             trace = trace w @
               [SendMail index_transporter
                  \<lparr>m_from = from, m_to = to, m_subject = subject, m_html = html\<rparr>,
                ConsoleError [JStr ''Error sending email:'', error]]\<rparr>)"
  using assms by (simp add: index_mail_def sendMail_def console_error_def)

lemma index_mail_pending:
  assumes "tr index_transporter \<lparr>m_from = from, m_to = to, m_subject = subject, m_html = html\<rparr> (net w)
             = (Pending, n')"
  shows "index_mail tr to from subject html w =
           (Pending,
            \<lparr>net = n',
             trace = trace w @
               [SendMail index_transporter
                  \<lparr>m_from = from, m_to = to, m_subject = subject, m_html = html\<rparr>]\<rparr>)"
  using assms by (simp add: index_mail_def sendMail_def)

lemma index_mail_trace:
  "\<exists>ls. trace (snd (index_mail tr to from subject html w)) =
          trace w @ SendMail index_transporter
                      \<lparr>m_from = from, m_to = to, m_subject = subject, m_html = html\<rparr> # ls
      \<and> creations ls = [] \<and> submissions ls = []
      \<and> length (console_calls ls) = (if fst (index_mail tr to from subject html w) = Pending then 0 else 1)"
proof -
  let ?m = "\<lparr>m_from = from, m_to = to, m_subject = subject, m_html = html\<rparr>"
  obtain r n' where t: "tr index_transporter ?m (net w) = (r, n')"
    by (cases "tr index_transporter ?m (net w)")
  show ?thesis
  proof (cases r)
    case (Fulfilled info)
    with t show ?thesis
      by (cases "get_prop info ''messageId''")
         (simp_all add: index_mail_type_error index_mail_fulfilled)
  next
    case (Rejected error)
    with t show ?thesis by (simp add: index_mail_rejected)
  next
    case Pending
    with t show ?thesis by (simp add: index_mail_pending)
  qed
qed

lemma index_mail_net:
  "net (snd (index_mail tr to from subject html w)) =
     snd (tr index_transporter \<lparr>m_from = from, m_to = to, m_subject = subject, m_html = html\<rparr> (net w))"
  by (simp add: index_mail_def sendMail_def console_log_def console_error_def
           split: prod.splits promise.splits sum.splits)

lemma part_001_mail_trace:
  "\<exists>ls. trace (snd (part_001_mail tr to from subject html w)) =
          trace w @ SendMail part_001_transporter
                      \<lparr>m_from = from, m_to = to, m_subject = subject, m_html = html\<rparr> # ls
      \<and> creations ls = [] \<and> submissions ls = []"
  by (simp add: part_001_mail_def sendMail_def console_log_def console_error_def
           split: prod.splits promise.splits sum.splits)

lemma part_001_mail_net:
  "net (snd (part_001_mail tr to from subject html w)) =
     snd (tr part_001_transporter \<lparr>m_from = from, m_to = to, m_subject = subject, m_html = html\<rparr> (net w))"
  by (simp add: part_001_mail_def sendMail_def console_log_def console_error_def
           split: prod.splits promise.splits sum.splits)

lemma index_calls_trace:
  "\<exists>es. trace (index_calls tr cs w) = trace w @ es \<and> creations es = []
        \<and> map fst (submissions es) = replicate (length cs) index_transporter"
proof (induction cs arbitrary: w)
  case Nil
  show ?case by simp
next
  case (Cons args cs)
  let ?w1 = "snd (index_mail_call tr args w)"
  obtain ls where ls: "trace ?w1 = trace w @ SendMail index_transporter
        \<lparr>m_from = arg args 1, m_to = arg args 0, m_subject = arg args 2, m_html = arg args 3\<rparr> # ls"
      "creations ls = []" "submissions ls = []"
    unfolding index_mail_call_def using index_mail_trace by blast
  obtain es where es: "trace (index_calls tr cs ?w1) = trace ?w1 @ es" "creations es = []"
      "map fst (submissions es) = replicate (length cs) index_transporter"
    using Cons.IH by blast
  let ?all = "SendMail index_transporter
        \<lparr>m_from = arg args 1, m_to = arg args 0, m_subject = arg args 2, m_html = arg args 3\<rparr> # ls @ es"
  have "trace (index_calls tr (args # cs) w) = trace w @ ?all"
    using ls(1) es(1) by simp
  moreover have "creations ?all = []"
    using ls(2) es(2) by (simp add: creations_append)
  moreover have "map fst (submissions ?all) = replicate (length (args # cs)) index_transporter"
    using ls(3) es(3) by (simp add: submissions_append)
  ultimately show ?case by blast
qed

lemma part_001_calls_trace:
  "\<exists>es. trace (part_001_calls tr cs w) = trace w @ es \<and> creations es = []
        \<and> map fst (submissions es) = replicate (length cs) part_001_transporter"
proof (induction cs arbitrary: w)
  case Nil
  show ?case by simp
next
  case (Cons args cs)
  let ?w1 = "snd (part_001_mail_call tr args w)"
  obtain ls where ls: "trace ?w1 = trace w @ SendMail part_001_transporter
        \<lparr>m_from = arg args 1, m_to = arg args 0, m_subject = arg args 2, m_html = arg args 3\<rparr> # ls"
      "creations ls = []" "submissions ls = []"
    unfolding part_001_mail_call_def using part_001_mail_trace by blast
  obtain es where es: "trace (part_001_calls tr cs ?w1) = trace ?w1 @ es" "creations es = []"
      "map fst (submissions es) = replicate (length cs) part_001_transporter"
    using Cons.IH by blast
  let ?all = "SendMail part_001_transporter
        \<lparr>m_from = arg args 1, m_to = arg args 0, m_subject = arg args 2, m_html = arg args 3\<rparr> # ls @ es"
  have "trace (part_001_calls tr (args # cs) w) = trace w @ ?all"
    using ls(1) es(1) by simp
  moreover have "creations ?all = []"
    using ls(2) es(2) by (simp add: creations_append)
  moreover have "map fst (submissions ?all) = replicate (length (args # cs)) part_001_transporter"
    using ls(3) es(3) by (simp add: submissions_append)
  ultimately show ?case by blast
qed

lemma index_run_trace:
  "\<exists>es. new_events w (index_run tr cs w) = CreateTransport index_transporter # es
        \<and> creations es = []
        \<and> map fst (submissions es) = replicate (length cs) index_transporter"
proof -
  obtain es where es: "trace (index_calls tr cs (index_load w)) = trace (index_load w) @ es"
      "creations es = []" "map fst (submissions es) = replicate (length cs) index_transporter"
    using index_calls_trace by blast
  have "trace (index_run tr cs w) = trace w @ CreateTransport index_transporter # es"
    using es(1) by (simp add: index_run_def index_load_def createTransport_def)
  then have "new_events w (index_run tr cs w) = CreateTransport index_transporter # es"
    by (rule new_events_append)
  with es(2,3) show ?thesis by blast
qed

lemma part_001_run_trace:
  "\<exists>es. new_events w (part_001_run tr cs w) = CreateTransport part_001_transporter # es
        \<and> creations es = []
        \<and> map fst (submissions es) = replicate (length cs) part_001_transporter"
proof -
  obtain es where es: "trace (part_001_calls tr cs (part_001_load w)) = trace (part_001_load w) @ es"
      "creations es = []" "map fst (submissions es) = replicate (length cs) part_001_transporter"
    using part_001_calls_trace by blast
  have "trace (part_001_run tr cs w) = trace w @ CreateTransport part_001_transporter # es"
    using es(1) by (simp add: part_001_run_def part_001_load_def createTransport_def)
  then have "new_events w (part_001_run tr cs w) = CreateTransport part_001_transporter # es"
    by (rule new_events_append)
  with es(2,3) show ?thesis by blast
qed

text \<open>
  The call is its part before the \<open>await\<close> followed by its part after it, and what the second
  part returns or throws depends on the settled promise only, not on what else has run.
\<close>

lemma index_mail_split:
  "index_mail tr to from subject html w =
     index_mail_resume (fst (index_mail_start tr to from subject html w))
       (snd (index_mail_start tr to from subject html w))"
  by (simp add: index_mail_def index_mail_start_def index_mail_resume_def
           split: prod.splits promise.splits sum.splits)

lemma index_mail_resume_outcome:
  "fst (index_mail_resume p w) = fst (index_mail_resume p w')"
  by (simp add: index_mail_resume_def split: promise.splits sum.splits)

text \<open>
  Two calls in flight, the second with its recipient missing, settled in the reverse of the
  order in which they were made.
\<close>

lemma two_calls_settled_in_reverse:
  "(let (pA, w1) = index_mail_start recipient_checking_mta (JStr ''recipient@gmail.com'')
                     (JStr ''support@mail.fiery.tools'') (JStr ''Test'') (JStr ''<h1>Hello</h1>'') w0;
        (pB, w2) = index_mail_start recipient_checking_mta JUndefined
                     (JStr ''support@mail.fiery.tools'') (JStr ''Test'') (JStr ''<h1>Hello</h1>'') w1;
        (rB, wB) = index_mail_resume pB w2;
        (rA, wBA) = index_mail_resume pA wB
    in rA = Fulfilled (JObj [(''messageId'', JStr ''<i@localhost>''),
                             (''response'', JStr ''250 2.0.0 Ok: queued'')])
     \<and> rB = Rejected (JObj [(''code'', JStr ''EENVELOPE'')])
     \<and> new_events w2 wBA =
         [ConsoleError [JStr ''Error sending email:'', JObj [(''code'', JStr ''EENVELOPE'')]],
          ConsoleLog [JStr ''Message sent: %s'', JStr ''<i@localhost>'']])"
  by (simp add: index_mail_start_def index_mail_resume_def sendMail_def
        recipient_checking_mta_def accepting_mta_def console_log_def console_error_def
        new_events_def w0_def)

text \<open>
  A transport that never answers leaves the call suspended: it neither returns nor throws,
  and nothing is logged after the submission.
\<close>

lemma index_mail_silent:
  "index_mail silent_mta to from subject html w0 =
     (Pending,
      \<lparr>net = 0,
       trace = [SendMail index_transporter
                  \<lparr>m_from = from, m_to = to, m_subject = subject, m_html = html\<rparr>]\<rparr>)"
  by (simp add: index_mail_def sendMail_def silent_mta_def w0_def)

section \<open>The claims\<close>

text \<open>
  Claim C1. For every four arguments, when the transport accepts the submitted message, that
  is, when the promise of \<open>sendMail\<close> is fulfilled with an info object whose \<open>messageId\<close> is the
  non-empty string the transport assigned, the call of \<open>mail\<close> is fulfilled with that same
  object: the result carries that non-empty delivery identifier, and the one console call of
  the run is the line reporting it.
\<close>

theorem index_mail_returns_delivery_id:
  assumes "tr index_transporter \<lparr>m_from = from, m_to = to, m_subject = subject, m_html = html\<rparr> (net w)
             = (Fulfilled info, n')"
    and "delivery_id (Fulfilled info) = Some mid"
    and "mid \<noteq> []"
  shows "fst (index_mail tr to from subject html w) = Fulfilled info
       \<and> delivery_id (fst (index_mail tr to from subject html w)) = Some mid
       \<and> mid \<noteq> []
       \<and> console_calls (new_events w (snd (index_mail tr to from subject html w))) =
           [ConsoleLog [JStr ''Message sent: %s'', JStr mid]]"
proof -
  have m: "get_prop info ''messageId'' = Inr (JStr mid)"
    using assms(2) by (rule delivery_id_messageId)
  show ?thesis
    using assms m by (simp add: index_mail_fulfilled new_events_def)
qed

text \<open>The statement above at a concrete input.\<close>

theorem index_mail_returns_delivery_id_witness:
  "fst (index_mail accepting_mta (JStr ''recipient@gmail.com'') (JStr ''support@mail.fiery.tools'')
          (JStr ''Test'') (JStr ''<h1>Hello</h1>'') w0)
     = Fulfilled (JObj [(''messageId'', JStr ''<i@localhost>''),
                        (''response'', JStr ''250 2.0.0 Ok: queued'')])
   \<and> delivery_id (fst (index_mail accepting_mta (JStr ''recipient@gmail.com'')
          (JStr ''support@mail.fiery.tools'') (JStr ''Test'') (JStr ''<h1>Hello</h1>'') w0))
     = Some ''<i@localhost>''"
proof -
  let ?info = "JObj [(''messageId'', JStr ''<i@localhost>''),
                     (''response'', JStr ''250 2.0.0 Ok: queued'')]"
  have h1: "accepting_mta index_transporter
              \<lparr>m_from = JStr ''support@mail.fiery.tools'', m_to = JStr ''recipient@gmail.com'',
               m_subject = JStr ''Test'', m_html = JStr ''<h1>Hello</h1>''\<rparr> (net w0)
            = (Fulfilled ?info, Suc 0)"
    by (simp add: accepting_mta_def w0_def)
  have h2: "delivery_id (Fulfilled ?info) = Some ''<i@localhost>''"
    by (simp add: delivery_id_def)
  have h3: "''<i@localhost>'' \<noteq> []"
    by simp
  show ?thesis
    using index_mail_returns_delivery_id
            [of accepting_mta "JStr ''support@mail.fiery.tools''" "JStr ''recipient@gmail.com''"
                "JStr ''Test''" "JStr ''<h1>Hello</h1>''" w0 ?info "Suc 0" "''<i@localhost>''",
             OF h1 h2 h3]
    by blast
qed

text \<open>
  Claim C2. For every value with which the transport rejects the submission (a refused
  connection, a failed negotiation, a rejected envelope or recipient, a protocol error), the
  call of \<open>mail\<close> is rejected with that very value, unwrapped and unclassified; it is given
  once to \<open>console.error\<close>, which is the only console call of the run, and the outcome
  carries no delivery identifier.
\<close>

theorem index_mail_rethrows_transport_error:
  assumes "tr index_transporter \<lparr>m_from = from, m_to = to, m_subject = subject, m_html = html\<rparr> (net w)
             = (Rejected error, n')"
  shows "fst (index_mail tr to from subject html w) = Rejected error
       \<and> console_calls (new_events w (snd (index_mail tr to from subject html w))) =
           [ConsoleError [JStr ''Error sending email:'', error]]
       \<and> delivery_id (fst (index_mail tr to from subject html w)) = None"
  using assms by (simp add: index_mail_rejected new_events_def delivery_id_def)

text \<open>The statement above at a concrete input.\<close>

theorem index_mail_rethrows_transport_error_witness:
  "fst (index_mail refusing_mta (JStr ''recipient@gmail.com'') (JStr ''support@mail.fiery.tools'')
          (JStr ''Test'') (JStr ''<h1>Hello</h1>'') w0)
     = Rejected (JObj [(''code'', JStr ''ECONNREFUSED'')])
   \<and> console_calls (new_events w0 (snd (index_mail refusing_mta (JStr ''recipient@gmail.com'')
          (JStr ''support@mail.fiery.tools'') (JStr ''Test'') (JStr ''<h1>Hello</h1>'') w0)))
     = [ConsoleError [JStr ''Error sending email:'', JObj [(''code'', JStr ''ECONNREFUSED'')]]]"
proof -
  have h: "refusing_mta index_transporter
              \<lparr>m_from = JStr ''support@mail.fiery.tools'', m_to = JStr ''recipient@gmail.com'',
               m_subject = JStr ''Test'', m_html = JStr ''<h1>Hello</h1>''\<rparr> (net w0)
            = (Rejected (JObj [(''code'', JStr ''ECONNREFUSED'')]), 0)"
    by (simp add: refusing_mta_def w0_def)
  show ?thesis
    using index_mail_rethrows_transport_error
            [of refusing_mta "JStr ''support@mail.fiery.tools''" "JStr ''recipient@gmail.com''"
                "JStr ''Test''" "JStr ''<h1>Hello</h1>''" w0 "JObj [(''code'', JStr ''ECONNREFUSED'')]" 0,
             OF h]
    by simp
qed

text \<open>
  Claim C3. The claim is that the configuration used by every send relaxes certificate
  validation, so that the self-signed certificate of the local endpoint does not make the
  call fail. The options of \<open>part_001\<close> do; the options of \<open>src/index.js\<close> have no \<open>tls\<close> key
  and leave validation strict: against an endpoint presenting a self-signed certificate the
  call of \<open>src/index.js\<close> is rejected where the call of \<open>part_001\<close> is fulfilled.
\<close>

theorem index_transporter_validation_strict:
  "\<not> cert_validation_relaxed index_transporter
   \<and> cert_validation_relaxed part_001_transporter
   \<and> fst (index_mail self_signed_mta (JStr ''recipient@gmail.com'')
            (JStr ''support@mail.fiery.tools'') (JStr ''Test'') (JStr ''<h1>Hello</h1>'') w0)
     = Rejected (JObj [(''code'', JStr ''ESOCKET''), (''message'', JStr ''self-signed certificate'')])
   \<and> fst (part_001_mail self_signed_mta (JStr ''recipient@gmail.com'')
            (JStr ''support@mail.fiery.tools'') (JStr ''Test'') (JStr ''<h1>Hello</h1>'') w0)
     = Fulfilled (JObj [(''messageId'', JStr ''<i@localhost>''),
                        (''response'', JStr ''250 2.0.0 Ok: queued'')])"
proof -
  have s: "\<not> cert_validation_relaxed index_transporter"
    by (simp add: cert_validation_relaxed_def index_transporter_def)
  have r: "cert_validation_relaxed part_001_transporter"
    by (simp add: cert_validation_relaxed_def part_001_transporter_def)
  have i: "fst (index_mail self_signed_mta (JStr ''recipient@gmail.com'')
            (JStr ''support@mail.fiery.tools'') (JStr ''Test'') (JStr ''<h1>Hello</h1>'') w0)
     = Rejected (JObj [(''code'', JStr ''ESOCKET''), (''message'', JStr ''self-signed certificate'')])"
    using s by (simp add: index_mail_def sendMail_def self_signed_mta_def w0_def)
  have p: "fst (part_001_mail self_signed_mta (JStr ''recipient@gmail.com'')
            (JStr ''support@mail.fiery.tools'') (JStr ''Test'') (JStr ''<h1>Hello</h1>'') w0)
     = Fulfilled (JObj [(''messageId'', JStr ''<i@localhost>''),
                        (''response'', JStr ''250 2.0.0 Ok: queued'')])"
    using r by (simp add: part_001_mail_def sendMail_def self_signed_mta_def accepting_mta_def w0_def)
  from s r i p show ?thesis by blast
qed

text \<open>
  Claim C4. For every four argument values, the one message handed to the transport has
  exactly the given values in its \<open>from\<close>, \<open>to\<close>, \<open>subject\<close> and \<open>html\<close> fields, whatever they
  are, and the transport is consulted on that message: nothing is modified or validated on
  the way.
\<close>

theorem index_mail_forwards_fields_unchanged:
  "submissions (new_events w (snd (index_mail tr to from subject html w))) =
     [(index_transporter, \<lparr>m_from = from, m_to = to, m_subject = subject, m_html = html\<rparr>)]
   \<and> net (snd (index_mail tr to from subject html w)) =
     snd (tr index_transporter \<lparr>m_from = from, m_to = to, m_subject = subject, m_html = html\<rparr> (net w))"
proof -
  obtain ls where ls: "trace (snd (index_mail tr to from subject html w)) =
      trace w @ SendMail index_transporter
        \<lparr>m_from = from, m_to = to, m_subject = subject, m_html = html\<rparr> # ls" "submissions ls = []"
    using index_mail_trace by blast
  from ls(1) have "new_events w (snd (index_mail tr to from subject html w)) =
      SendMail index_transporter
        \<lparr>m_from = from, m_to = to, m_subject = subject, m_html = html\<rparr> # ls"
    by (rule new_events_append)
  with ls(2) show ?thesis by (simp add: index_mail_net)
qed

text \<open>
  Claim C5. In a process that loads the module and then calls \<open>mail\<close> any number of times,
  with any arguments and any behaviour of the transport, exactly one transporter is
  constructed, with host \<open>localhost\<close>, port 25 and \<open>secure: false\<close> (a plaintext connection
  that negotiates encryption afterwards), and every submission goes to the transporter with
  those same options. This holds for both modules.
\<close>

theorem transporter_constructed_once_fixed:
  "host index_transporter = ''localhost'' \<and> port index_transporter = 25
   \<and> secure index_transporter = False
   \<and> host part_001_transporter = ''localhost'' \<and> port part_001_transporter = 25
   \<and> secure part_001_transporter = False
   \<and> creations (new_events w (index_run tr cs w)) = [index_transporter]
   \<and> map fst (submissions (new_events w (index_run tr cs w))) =
       replicate (length cs) index_transporter
   \<and> creations (new_events w (part_001_run tr cs w)) = [part_001_transporter]
   \<and> map fst (submissions (new_events w (part_001_run tr cs w))) =
       replicate (length cs) part_001_transporter"
proof -
  obtain es where es: "new_events w (index_run tr cs w) = CreateTransport index_transporter # es"
      "creations es = []" "map fst (submissions es) = replicate (length cs) index_transporter"
    using index_run_trace by blast
  obtain fs where fs: "new_events w (part_001_run tr cs w) = CreateTransport part_001_transporter # fs"
      "creations fs = []" "map fst (submissions fs) = replicate (length cs) part_001_transporter"
    using part_001_run_trace by blast
  have "host index_transporter = ''localhost'' \<and> port index_transporter = 25
      \<and> secure index_transporter = False"
    by (simp add: index_transporter_def)
  moreover have "host part_001_transporter = ''localhost'' \<and> port part_001_transporter = 25
      \<and> secure part_001_transporter = False"
    by (simp add: part_001_transporter_def)
  moreover have "creations (new_events w (index_run tr cs w)) = [index_transporter]"
    using es by simp
  moreover have "map fst (submissions (new_events w (index_run tr cs w))) =
       replicate (length cs) index_transporter"
    using es by simp
  moreover have "creations (new_events w (part_001_run tr cs w)) = [part_001_transporter]"
    using fs by simp
  moreover have "map fst (submissions (new_events w (part_001_run tr cs w))) =
       replicate (length cs) part_001_transporter"
    using fs by simp
  ultimately show ?thesis by blast
qed

text \<open>
  Claim C6. Each call of \<open>mail\<close> submits to the transport exactly once (no retry, whatever
  the outcome), and a call that settles, fulfilled or rejected, makes exactly one console
  call.
\<close>

theorem index_mail_one_submission_one_log:
  "length (submissions (new_events w (snd (index_mail tr to from subject html w)))) = 1
   \<and> (fst (index_mail tr to from subject html w) \<noteq> Pending \<longrightarrow>
        length (console_calls (new_events w (snd (index_mail tr to from subject html w)))) = 1)"
proof -
  obtain ls where ls: "trace (snd (index_mail tr to from subject html w)) =
      trace w @ SendMail index_transporter
        \<lparr>m_from = from, m_to = to, m_subject = subject, m_html = html\<rparr> # ls"
      "submissions ls = []"
      "length (console_calls ls) = (if fst (index_mail tr to from subject html w) = Pending then 0 else 1)"
    using index_mail_trace by blast
  from ls(1) have "new_events w (snd (index_mail tr to from subject html w)) =
      SendMail index_transporter
        \<lparr>m_from = from, m_to = to, m_subject = subject, m_html = html\<rparr> # ls"
    by (rule new_events_append)
  with ls(2,3) show ?thesis by simp
qed

text \<open>The statement above at a concrete input.\<close>

theorem index_mail_one_submission_one_log_witness:
  "fst (index_mail accepting_mta (JStr ''a@example.com'') (JStr ''b@example.org'')
          (JStr ''Test'') (JStr ''<p>x</p>'') w0) \<noteq> Pending
   \<and> length (console_calls (new_events w0 (snd (index_mail accepting_mta (JStr ''a@example.com'')
          (JStr ''b@example.org'') (JStr ''Test'') (JStr ''<p>x</p>'') w0)))) = 1
   \<and> fst (index_mail refusing_mta (JStr ''a@example.com'') (JStr ''b@example.org'')
          (JStr ''Test'') (JStr ''<p>x</p>'') w0) \<noteq> Pending
   \<and> length (console_calls (new_events w0 (snd (index_mail refusing_mta (JStr ''a@example.com'')
          (JStr ''b@example.org'') (JStr ''Test'') (JStr ''<p>x</p>'') w0)))) = 1"
proof -
  have a: "fst (index_mail accepting_mta (JStr ''a@example.com'') (JStr ''b@example.org'')
          (JStr ''Test'') (JStr ''<p>x</p>'') w0) \<noteq> Pending"
    by (simp add: index_mail_def sendMail_def accepting_mta_def w0_def)
  have r: "fst (index_mail refusing_mta (JStr ''a@example.com'') (JStr ''b@example.org'')
          (JStr ''Test'') (JStr ''<p>x</p>'') w0) \<noteq> Pending"
    by (simp add: index_mail_def sendMail_def refusing_mta_def w0_def)
  show ?thesis
    using a r
      index_mail_one_submission_one_log
        [of w0 accepting_mta "JStr ''a@example.com''" "JStr ''b@example.org''"
            "JStr ''Test''" "JStr ''<p>x</p>''"]
      index_mail_one_submission_one_log
        [of w0 refusing_mta "JStr ''a@example.com''" "JStr ''b@example.org''"
            "JStr ''Test''" "JStr ''<p>x</p>''"]
    by blast
qed

text \<open>
  Claim C7. Two calls of \<open>mail\<close> with the same arguments make two submissions of the same
  message, and the transport is consulted each time, the second time in the state the first
  submission left: nothing is deduplicated, memoised or suppressed.
\<close>

theorem index_mail_twice_two_submissions:
  "submissions (new_events w
      (snd (index_mail tr to from subject html (snd (index_mail tr to from subject html w))))) =
     [(index_transporter, \<lparr>m_from = from, m_to = to, m_subject = subject, m_html = html\<rparr>),
      (index_transporter, \<lparr>m_from = from, m_to = to, m_subject = subject, m_html = html\<rparr>)]
   \<and> net (snd (index_mail tr to from subject html (snd (index_mail tr to from subject html w)))) =
     snd (tr index_transporter \<lparr>m_from = from, m_to = to, m_subject = subject, m_html = html\<rparr>
       (snd (tr index_transporter \<lparr>m_from = from, m_to = to, m_subject = subject, m_html = html\<rparr>
          (net w))))"
proof -
  let ?m = "\<lparr>m_from = from, m_to = to, m_subject = subject, m_html = html\<rparr>"
  let ?w1 = "snd (index_mail tr to from subject html w)"
  let ?w2 = "snd (index_mail tr to from subject html ?w1)"
  obtain ls where ls: "trace ?w1 = trace w @ SendMail index_transporter ?m # ls"
      "submissions ls = []"
    using index_mail_trace by blast
  obtain ks where ks: "trace ?w2 = trace ?w1 @ SendMail index_transporter ?m # ks"
      "submissions ks = []"
    using index_mail_trace by blast
  have "trace ?w2 = trace w @ (SendMail index_transporter ?m # ls @ SendMail index_transporter ?m # ks)"
    using ls(1) ks(1) by simp
  then have "new_events w ?w2 = SendMail index_transporter ?m # ls @ SendMail index_transporter ?m # ks"
    by (rule new_events_append)
  then have "submissions (new_events w ?w2) = [(index_transporter, ?m), (index_transporter, ?m)]"
    using ls(2) ks(2) by (simp add: submissions_append)
  then show ?thesis by (simp add: index_mail_net)
qed

text \<open>
  Claim C8. This layer has no timeout and no cancellation: a call is still pending exactly
  when the transport has not settled its submission. It has no queue and no lock: a call is
  its part before the \<open>await\<close> followed by its part after it, and a second call makes its
  submission while the first is in flight, whatever becomes of the first, even if it never
  settles. It imposes no order: two calls in flight may resume in either order, each gets the
  outcome it would have had alone, the console calls appear in the order of settlement, and
  the state behind the transport is the same either way.
\<close>

theorem index_mail_in_flight:
  "(fst (index_mail tr a1 a2 a3 a4 w) = Pending) =
     (fst (tr index_transporter \<lparr>m_from = a2, m_to = a1, m_subject = a3, m_html = a4\<rparr> (net w)) = Pending)
   \<and> index_mail tr a1 a2 a3 a4 w =
       (case index_mail_start tr a1 a2 a3 a4 w of (p, w1) \<Rightarrow> index_mail_resume p w1)
   \<and> (let (pA, w1) = index_mail_start tr a1 a2 a3 a4 w;
           (pB, w2) = index_mail_start tr b1 b2 b3 b4 w1;
           (rA, wA) = index_mail_resume pA w2;
           (rB, wAB) = index_mail_resume pB wA;
           (rB', wB) = index_mail_resume pB w2;
           (rA', wBA) = index_mail_resume pA wB
       in new_events w w2 =
            [SendMail index_transporter \<lparr>m_from = a2, m_to = a1, m_subject = a3, m_html = a4\<rparr>,
             SendMail index_transporter \<lparr>m_from = b2, m_to = b1, m_subject = b3, m_html = b4\<rparr>]
        \<and> rA = fst (index_mail tr a1 a2 a3 a4 w) \<and> rA' = rA
        \<and> rB = fst (index_mail tr b1 b2 b3 b4 (snd (index_mail tr a1 a2 a3 a4 w))) \<and> rB' = rB
        \<and> new_events w2 wAB = new_events w2 wA @ new_events w2 wB
        \<and> new_events w2 wBA = new_events w2 wB @ new_events w2 wA
        \<and> net wAB = net wBA)"
  by (simp add: index_mail_def index_mail_start_def index_mail_resume_def sendMail_def
        console_log_def console_error_def new_events_def
        split: prod.splits promise.splits sum.splits)

text \<open>
  Claim C9. Whenever the transport settles the submission in the same way for the options of
  the two modules, \<open>mail\<close> of \<open>src/index.js\<close> and \<open>mail\<close> of \<open>part_001\<close> have the same outcome
  (the same result or the same thrown value), leave the same state behind the transport, make
  the same console calls and submit the same message; the options of \<open>part_001\<close> are those of
  \<open>src/index.js\<close> with \<open>tls: { rejectUnauthorized: false }\<close> added.
\<close>

theorem mail_modules_agree:
  assumes "tr index_transporter \<lparr>m_from = from, m_to = to, m_subject = subject, m_html = html\<rparr> (net w)
         = tr part_001_transporter \<lparr>m_from = from, m_to = to, m_subject = subject, m_html = html\<rparr> (net w)"
  shows "fst (index_mail tr to from subject html w) = fst (part_001_mail tr to from subject html w)
       \<and> net (snd (index_mail tr to from subject html w)) =
         net (snd (part_001_mail tr to from subject html w))
       \<and> console_calls (new_events w (snd (index_mail tr to from subject html w))) =
         console_calls (new_events w (snd (part_001_mail tr to from subject html w)))
       \<and> map snd (submissions (new_events w (snd (index_mail tr to from subject html w)))) =
         map snd (submissions (new_events w (snd (part_001_mail tr to from subject html w))))
       \<and> part_001_transporter = index_transporter\<lparr>tls := Some \<lparr>rejectUnauthorized = False\<rparr>\<rparr>
       \<and> tls index_transporter = None"
  using assms
  by (simp add: index_mail_def part_001_mail_def sendMail_def console_log_def console_error_def
        new_events_def index_transporter_def part_001_transporter_def
        split: prod.splits promise.splits sum.splits)

text \<open>The statement above at a concrete input.\<close>

theorem mail_modules_agree_witness:
  "fst (index_mail accepting_mta (JStr ''a@example.com'') (JStr ''b@example.org'')
          (JStr ''Test'') (JStr ''<p>x</p>'') w0)
   = fst (part_001_mail accepting_mta (JStr ''a@example.com'') (JStr ''b@example.org'')
          (JStr ''Test'') (JStr ''<p>x</p>'') w0)
   \<and> fst (part_001_mail accepting_mta (JStr ''a@example.com'') (JStr ''b@example.org'')
          (JStr ''Test'') (JStr ''<p>x</p>'') w0)
   = Fulfilled (JObj [(''messageId'', JStr ''<i@localhost>''),
                      (''response'', JStr ''250 2.0.0 Ok: queued'')])"
proof -
  have h: "accepting_mta index_transporter
              \<lparr>m_from = JStr ''b@example.org'', m_to = JStr ''a@example.com'',
               m_subject = JStr ''Test'', m_html = JStr ''<p>x</p>''\<rparr> (net w0)
         = accepting_mta part_001_transporter
              \<lparr>m_from = JStr ''b@example.org'', m_to = JStr ''a@example.com'',
               m_subject = JStr ''Test'', m_html = JStr ''<p>x</p>''\<rparr> (net w0)"
    by (simp add: accepting_mta_def)
  have v: "fst (index_mail accepting_mta (JStr ''a@example.com'') (JStr ''b@example.org'')
          (JStr ''Test'') (JStr ''<p>x</p>'') w0)
      = Fulfilled (JObj [(''messageId'', JStr ''<i@localhost>''),
                      (''response'', JStr ''250 2.0.0 Ok: queued'')])"
    by (simp add: index_mail_def sendMail_def accepting_mta_def w0_def)
  show ?thesis
    using v mail_modules_agree
            [of accepting_mta "JStr ''b@example.org''" "JStr ''a@example.com''"
                "JStr ''Test''" "JStr ''<p>x</p>''" w0, OF h]
    by simp
qed

text \<open>
  Claim C10. For every argument list, of any length and with any values (absent arguments
  are \<open>undefined\<close>, strings may be empty), the first thing a call of \<open>mail\<close> does is to submit
  the message with those values to the transport; and, the transport fulfilling its promise
  with an info object as \<open>nodemailer\<close> does (not with \<open>undefined\<close> or \<open>null\<close>), a call of \<open>mail\<close>
  is rejected with a value only when the transport rejected the submission with that value.
\<close>

theorem index_mail_no_argument_check:
  "take 1 (new_events w (snd (index_mail_call tr args w))) =
     [SendMail index_transporter
        \<lparr>m_from = arg args 1, m_to = arg args 0, m_subject = arg args 2, m_html = arg args 3\<rparr>]
   \<and> (fst (index_mail_call tr args w) = Rejected e \<longrightarrow>
      fst (tr index_transporter
             \<lparr>m_from = arg args 1, m_to = arg args 0, m_subject = arg args 2, m_html = arg args 3\<rparr>
             (net w)) \<noteq> Fulfilled JUndefined \<longrightarrow>
      fst (tr index_transporter
             \<lparr>m_from = arg args 1, m_to = arg args 0, m_subject = arg args 2, m_html = arg args 3\<rparr>
             (net w)) \<noteq> Fulfilled JNull \<longrightarrow>
      fst (tr index_transporter
             \<lparr>m_from = arg args 1, m_to = arg args 0, m_subject = arg args 2, m_html = arg args 3\<rparr>
             (net w)) = Rejected e)"
proof -
  let ?m = "\<lparr>m_from = arg args 1, m_to = arg args 0, m_subject = arg args 2, m_html = arg args 3\<rparr>"
  obtain ls where ls: "trace (snd (index_mail_call tr args w)) =
      trace w @ SendMail index_transporter ?m # ls"
    unfolding index_mail_call_def using index_mail_trace by blast
  then have "new_events w (snd (index_mail_call tr args w)) = SendMail index_transporter ?m # ls"
    by (rule new_events_append)
  then have forwarded: "take 1 (new_events w (snd (index_mail_call tr args w))) =
      [SendMail index_transporter ?m]"
    by simp
  obtain r n' where t: "tr index_transporter ?m (net w) = (r, n')"
    by (cases "tr index_transporter ?m (net w)")
  have "r = Rejected e"
    if "fst (index_mail_call tr args w) = Rejected e" "r \<noteq> Fulfilled JUndefined" "r \<noteq> Fulfilled JNull"
  proof (cases r)
    case (Fulfilled info)
    with that(2,3) have "info \<noteq> JUndefined" "info \<noteq> JNull" by simp_all
    then obtain mid where "get_prop info ''messageId'' = Inr mid"
      using get_prop_throws by (cases "get_prop info ''messageId''") blast+
    with t Fulfilled have "fst (index_mail_call tr args w) = Fulfilled info"
      by (simp add: index_mail_call_def index_mail_fulfilled)
    with that(1) show ?thesis by simp
  next
    case (Rejected error)
    with t have "fst (index_mail_call tr args w) = Rejected error"
      by (simp add: index_mail_call_def index_mail_rejected)
    with that(1) Rejected show ?thesis by simp
  next
    case Pending
    with t have "fst (index_mail_call tr args w) = Pending"
      by (simp add: index_mail_call_def index_mail_pending)
    with that(1) show ?thesis by simp
  qed
  with t forwarded show ?thesis by simp
qed

text \<open>The statement above at a concrete input.\<close>

theorem index_mail_no_argument_check_witness:
  "fst (index_mail_call refusing_mta [] w0) = Rejected (JObj [(''code'', JStr ''ECONNREFUSED'')])
   \<and> fst (refusing_mta index_transporter
        \<lparr>m_from = JUndefined, m_to = JUndefined, m_subject = JUndefined, m_html = JUndefined\<rparr>
        (net w0)) \<noteq> Fulfilled JUndefined
   \<and> fst (refusing_mta index_transporter
        \<lparr>m_from = JUndefined, m_to = JUndefined, m_subject = JUndefined, m_html = JUndefined\<rparr>
        (net w0)) \<noteq> Fulfilled JNull
   \<and> fst (refusing_mta index_transporter
        \<lparr>m_from = JUndefined, m_to = JUndefined, m_subject = JUndefined, m_html = JUndefined\<rparr>
        (net w0)) = Rejected (JObj [(''code'', JStr ''ECONNREFUSED'')])
   \<and> take 1 (new_events w0 (snd (index_mail_call refusing_mta [] w0))) =
       [SendMail index_transporter
         \<lparr>m_from = JUndefined, m_to = JUndefined, m_subject = JUndefined, m_html = JUndefined\<rparr>]
   \<and> fst (index_mail_call accepting_mta [JStr [], JStr [], JStr [], JStr []] w0) =
       Fulfilled (JObj [(''messageId'', JStr ''<i@localhost>''),
                        (''response'', JStr ''250 2.0.0 Ok: queued'')])"
proof -
  have a: "arg [] 0 = JUndefined" "arg [] 1 = JUndefined" "arg [] 2 = JUndefined"
      "arg [] 3 = JUndefined"
    by (simp_all add: arg_def)
  have h1: "fst (index_mail_call refusing_mta [] w0) = Rejected (JObj [(''code'', JStr ''ECONNREFUSED'')])"
    by (simp add: index_mail_call_def index_mail_def sendMail_def refusing_mta_def w0_def)
  have h2: "fst (refusing_mta index_transporter
        \<lparr>m_from = JUndefined, m_to = JUndefined, m_subject = JUndefined, m_html = JUndefined\<rparr>
        (net w0)) \<noteq> Fulfilled JUndefined"
    by (simp add: refusing_mta_def)
  have h3: "fst (refusing_mta index_transporter
        \<lparr>m_from = JUndefined, m_to = JUndefined, m_subject = JUndefined, m_html = JUndefined\<rparr>
        (net w0)) \<noteq> Fulfilled JNull"
    by (simp add: refusing_mta_def)
  have e: "fst (index_mail_call accepting_mta [JStr [], JStr [], JStr [], JStr []] w0) =
       Fulfilled (JObj [(''messageId'', JStr ''<i@localhost>''),
                        (''response'', JStr ''250 2.0.0 Ok: queued'')])"
    by (simp add: index_mail_call_def index_mail_def sendMail_def accepting_mta_def w0_def)
  show ?thesis
    using h1 h2 h3 e
      index_mail_no_argument_check
        [of w0 refusing_mta "[]" "JObj [(''code'', JStr ''ECONNREFUSED'')]"]
    unfolding a by blast
qed

end
